theory Spec2Isabelle
  imports Complex_Main
begin

section \<open>Python values and exceptions\<close>

text \<open>
  The values that reach \<open>calibre/db/tables.py\<close>: what the SQLite connection returns for a
  column (NULL, INTEGER, REAL, TEXT, BLOB) and what the adapters produce from them (booleans
  and timezone-aware datetimes). Text is a list of 8-bit code points. A REAL is carried as a
  real number: the code only tests it for being zero. A datetime is carried as its fields:
  year, month, day, hour, minutes, seconds and the UTC offset in seconds.
\<close>

datatype pyval =
    PyNone
  | PyBool bool
  | PyInt int
  | PyFloat real
  | PyStr string
  | PyBuffer "nat list"
  | PyDatetime int int int int int int int

datatype py_error =
    AttributeError
  | KeyError
  | ValueError
  | TypeError
  | OtherError string

text \<open>How a statement or a loop ends: it runs to its end, or an exception leaves it.\<close>

datatype outcome = Returned | Raised py_error

text \<open>Python's truth value testing (\<open>if x\<close>, \<open>not x\<close>, \<open>bool(x)\<close>).\<close>

fun truthy :: "pyval \<Rightarrow> bool" where
  "truthy PyNone = False"
| "truthy (PyBool b) = b"
| "truthy (PyInt i) = (i \<noteq> 0)"
| "truthy (PyFloat r) = (r \<noteq> 0)"
| "truthy (PyStr s) = (s \<noteq> [])"
| "truthy (PyBuffer bs) = (bs \<noteq> [])"
| "truthy (PyDatetime y mo d h mi s tz) = True"

text \<open>The builtin \<open>bool\<close>, used as the adapter of the datatype \<open>'bool'\<close>.\<close>

definition py_bool :: "pyval \<Rightarrow> py_error + pyval" where
  "py_bool x = Inr (PyBool (truthy x))"

text \<open>
  \<open>val.strip()\<close>: only text has the method; it removes leading and trailing whitespace
  (the code points below 256 that Python's unicode type counts as space).
\<close>

definition py_isspace :: "char \<Rightarrow> bool" where
  "py_isspace c = ((of_char c :: nat) \<in> {9, 10, 11, 12, 13, 28, 29, 30, 31, 32, 133, 160})"

definition strip :: "pyval \<Rightarrow> py_error + string" where
  "strip val =
     (case val of
        PyStr s \<Rightarrow> Inr (rev (dropWhile py_isspace (rev (dropWhile py_isspace s))))
      | _ \<Rightarrow> Inl AttributeError)"

text \<open>
  \<open>x.replace(old, new)\<close> with one-character text \<open>old\<close> and \<open>new\<close>. Text has the method;
  a datetime has a method of the same name that takes date fields, and raises \<open>TypeError\<close> on
  these arguments; the other values have no such attribute.
\<close>

definition replace :: "pyval \<Rightarrow> char \<Rightarrow> char \<Rightarrow> py_error + pyval" where
  "replace x old new =
     (case x of
        PyStr s \<Rightarrow> Inr (PyStr (map (\<lambda>c. if c = old then new else c) s))
      | PyDatetime y mo d h mi sec tz \<Rightarrow> Inl TypeError
      | _ \<Rightarrow> Inl AttributeError)"

text \<open>
  \<open>d.append(x)\<close> on a \<open>dict\<close> \<open>d\<close>: a dict has no attribute \<open>append\<close>, so the attribute
  lookup raises \<open>AttributeError\<close> before anything is called, whatever \<open>d\<close> and \<open>x\<close> are.
\<close>

definition dict_append :: "('k \<rightharpoonup> 'v) \<Rightarrow> 'x \<Rightarrow> py_error + unit" where
  "dict_append d x = Inl AttributeError"

text \<open>
  A \<open>for\<close> loop over rows whose body mutates \<open>self\<close>: an exception in the body leaves the
  loop at once, with the mutations made so far.
\<close>

fun for_rows :: "('r \<Rightarrow> 's \<Rightarrow> outcome \<times> 's) \<Rightarrow> 'r list \<Rightarrow> 's \<Rightarrow> outcome \<times> 's" where
  "for_rows body [] self = (Returned, self)"
| "for_rows body (row # rows) self =
     (case body row self of
        (Returned, self') \<Rightarrow> for_rows body rows self'
      | (Raised e, self') \<Rightarrow> (Raised e, self'))"

section \<open>The module's imports\<close>

text \<open>
  The functions the module imports from outside this file, as parameters:
  \<open>_c_speedup.parse_date\<close> (the fast structured parser: a 7-tuple, \<open>None\<close>, or an exception),
  \<open>calibre.utils.date.parse_date\<close> (the flexible parser, with its \<open>as_utc\<close> flag),
  \<open>datetime(..., tzinfo=tzoffset(None, tzsecs)).astimezone(local_tz)\<close>, and
  \<open>calibre.ebooks.metadata.author_to_author_sort\<close>.
\<close>

record module_env =
  speedup_parse_date :: "string \<Rightarrow> py_error + (int \<times> int \<times> int \<times> int \<times> int \<times> int \<times> int) option"
  parse_date :: "pyval \<Rightarrow> bool \<Rightarrow> py_error + pyval"
  datetime_astimezone_local :: "int \<times> int \<times> int \<times> int \<times> int \<times> int \<times> int \<Rightarrow> py_error + pyval"
  author_to_author_sort :: "pyval \<Rightarrow> py_error + pyval"

text \<open>The calls a timestamp conversion makes to the imported functions, in order.\<close>

datatype call =
    Call_speedup_parse_date string
  | Call_parse_date pyval bool
  | Call_datetime "int \<times> int \<times> int \<times> int \<times> int \<times> int \<times> int"

section \<open>The timestamp adapter\<close>

text \<open>
  \<open>_c_convert_timestamp(val)\<close>. The result is the list of calls made and the value returned
  or the exception raised. The \<open>try\<close> covers \<open>val.strip()\<close> and the fast parser; its bare
  \<open>except\<close> turns every exception into \<open>ret = None\<close>.
\<close>

definition try_speedup :: "module_env \<Rightarrow> pyval \<Rightarrow> call list \<times> (int \<times> int \<times> int \<times> int \<times> int \<times> int \<times> int) option" where
  "try_speedup env val =
     (case strip val of
        Inl e \<Rightarrow> ([], None)
      | Inr s \<Rightarrow>
          ([Call_speedup_parse_date s],
           case speedup_parse_date env s of Inl e \<Rightarrow> None | Inr ret \<Rightarrow> ret))"

definition c_convert_timestamp :: "module_env \<Rightarrow> pyval \<Rightarrow> call list \<times> (py_error + pyval)" where
  "c_convert_timestamp env val =
     (if \<not> truthy val then ([], Inr PyNone)
      else
        (case try_speedup env val of
           (calls, None) \<Rightarrow> (calls @ [Call_parse_date val False], parse_date env val False)
         | (calls, Some ret) \<Rightarrow> (calls @ [Call_datetime ret], datetime_astimezone_local env ret)))"

section \<open>Table\<close>

text \<open>
  \<open>Table.__init__(self, name, metadata, link_table=None)\<close>. The metadata dict is read at the
  keys \<open>'datatype'\<close>, \<open>'table'\<close>, \<open>'column'\<close>, \<open>'name'\<close> and \<open>'link_column'\<close>, whose values are
  text or \<open>None\<close>; a missing key raises \<open>KeyError\<close>. \<open>link_table\<close> is \<open>None\<close> or text.
  \<open>str_of\<close> is what \<open>%s\<close> and \<open>format\<close> print for such a value.
\<close>

definition str_of :: "string option \<Rightarrow> string" where
  "str_of v = (case v of None \<Rightarrow> ''None'' | Some s \<Rightarrow> s)"

record Table =
  name :: string
  metadata :: "string \<rightharpoonup> string option"
  adapt :: "pyval \<Rightarrow> py_error + pyval"
  link_table :: string

definition getitem :: "(string \<rightharpoonup> 'v) \<Rightarrow> string \<Rightarrow> py_error + 'v" where
  "getitem d k = (case d k of None \<Rightarrow> Inl KeyError | Some v \<Rightarrow> Inr v)"

text \<open>The legacy adapter of the table named \<open>'authors'\<close>: \<open>lambda x: x.replace('|', ',') if x else None\<close>.\<close>

definition authors_adapt :: "pyval \<Rightarrow> py_error + pyval" where
  "authors_adapt x = (if truthy x then replace x (CHR ''|'') (CHR '','') else Inr PyNone)"

definition Table_init :: "module_env \<Rightarrow> string \<Rightarrow> (string \<rightharpoonup> string option) \<Rightarrow> string option \<Rightarrow> py_error + Table" where
  "Table_init env nm md lt =
     (case getitem md ''datatype'' of
        Inl e \<Rightarrow> Inl e
      | Inr dt \<Rightarrow>
          (let adapt0 =
                 (case map_of [(Some ''datetime'', \<lambda>x. snd (c_convert_timestamp env x)),
                               (Some ''bool'', py_bool)] dt of
                    Some f \<Rightarrow> f
                  | None \<Rightarrow> (\<lambda>x. Inr x));
               adapt1 = (if nm = ''authors'' then authors_adapt else adapt0);
               books_link =
                 (case getitem md ''table'' of
                    Inl e \<Rightarrow> Inl e
                  | Inr tb \<Rightarrow> Inr (''books_'' @ str_of tb @ ''_link''));
               link = (case lt of
                         None \<Rightarrow> books_link
                       | Some s \<Rightarrow> if s \<noteq> [] then Inr s else books_link)
           in
             (case link of
                Inl e \<Rightarrow> Inl e
              | Inr l \<Rightarrow> Inr \<lparr>name = nm, metadata = md, adapt = adapt1, link_table = l\<rparr>)))"

section \<open>The backing store\<close>

text \<open>
  \<open>db.conn.execute(query)\<close>: the ordered rows the store answers to a query text, or the
  exception it raises. The arity and the column types of the rows are fixed by the query:
  (id, value) for the one-to-one and id-map queries, (book, id) for a link table,
  (id, name, sort, link) for the authors, (book, format, name) for the data table.
\<close>

record db =
  execute_values :: "string \<Rightarrow> py_error + (int \<times> pyval) list"
  execute_links :: "string \<Rightarrow> py_error + (int \<times> int) list"
  execute_authors :: "string \<Rightarrow> py_error + (int \<times> pyval \<times> pyval \<times> pyval) list"
  execute_data :: "string \<Rightarrow> py_error + (int \<times> string option \<times> string option) list"

text \<open>\<open>for row in db.conn.execute(query): body\<close>.\<close>

definition for_query :: "py_error + 'r list \<Rightarrow> ('r \<Rightarrow> 's \<Rightarrow> outcome \<times> 's) \<Rightarrow> 's \<Rightarrow> outcome \<times> 's" where
  "for_query answer body self =
     (case answer of
        Inl e \<Rightarrow> (Raised e, self)
      | Inr rows \<Rightarrow> for_rows body rows self)"

section \<open>OneToOneTable and SizeTable\<close>

record OneToOneTable = Table +
  book_col_map :: "int \<rightharpoonup> pyval"

text \<open>
  The body shared by \<open>OneToOneTable.read\<close> and \<open>SizeTable.read\<close>:
  \<open>self.book_col_map[row[0]] = self.adapt(row[1])\<close>.
\<close>

definition OneToOneTable_row :: "int \<times> pyval \<Rightarrow> OneToOneTable \<Rightarrow> outcome \<times> OneToOneTable" where
  "OneToOneTable_row row self =
     (case adapt self (snd row) of
        Inl e \<Rightarrow> (Raised e, self)
      | Inr v \<Rightarrow> (Returned, self\<lparr>book_col_map := (book_col_map self)(fst row \<mapsto> v)\<rparr>))"

definition unloaded_OneToOneTable :: "Table \<Rightarrow> OneToOneTable" where
  "unloaded_OneToOneTable t =
     \<lparr>name = name t, metadata = metadata t, adapt = adapt t, link_table = link_table t,
      book_col_map = Map.empty\<rparr>"

definition OneToOneTable_read :: "Table \<Rightarrow> db \<Rightarrow> outcome \<times> OneToOneTable" where
  "OneToOneTable_read t db =
     (let self = unloaded_OneToOneTable t in
      case getitem (metadata self) ''table'' of
        Inl e \<Rightarrow> (Raised e, self)
      | Inr tb \<Rightarrow>
          (let idcol = (if tb = Some ''books'' then ''id'' else ''book'') in
           case getitem (metadata self) ''column'' of
             Inl e \<Rightarrow> (Raised e, self)
           | Inr col \<Rightarrow>
               for_query
                 (execute_values db
                    (''SELECT '' @ idcol @ '', '' @ str_of col @ '' FROM '' @ str_of tb))
                 OneToOneTable_row self))"

definition size_query :: string where
  "size_query =
     ''SELECT books.id, (SELECT MAX(uncompressed_size) FROM data WHERE data.book=books.id) FROM books''"

definition SizeTable_read :: "Table \<Rightarrow> db \<Rightarrow> outcome \<times> OneToOneTable" where
  "SizeTable_read t db =
     for_query (execute_values db size_query) OneToOneTable_row (unloaded_OneToOneTable t)"

section \<open>ManyToOneTable\<close>

text \<open>
  The four dicts \<open>read\<close> creates. \<open>'a\<close> is the type of the attribute ids (the keys of the
  inverse index), \<open>'f\<close> what the forward index holds for a book.
\<close>

record ('a, 'f) ManyToOneTable = Table +
  id_map :: "'a \<rightharpoonup> pyval"
  extra_map :: "'a \<rightharpoonup> pyval"
  col_book_map :: "'a \<rightharpoonup> int list"
  book_col_map :: "int \<rightharpoonup> 'f"

text \<open>
  \<open>read\<close> starts from the object the constructor built and sets the four dicts to \<open>{}\<close>
  before the two passes run.
\<close>

definition unloaded_ManyToOneTable :: "Table \<Rightarrow> ('a, 'f) ManyToOneTable" where
  "unloaded_ManyToOneTable t =
     \<lparr>name = name t, metadata = metadata t, adapt = adapt t, link_table = link_table t,
      id_map = Map.empty, extra_map = Map.empty, col_book_map = Map.empty,
      book_col_map = Map.empty\<rparr>"

text \<open>
  The body of the loop of \<open>ManyToOneTable.read_id_maps\<close>:
  \<open>if row[1]: self.id_map[row[0]] = self.adapt(row[1])\<close>.
\<close>

definition ManyToOneTable_id_row ::
  "int \<times> pyval \<Rightarrow> (int, 'f, 'z) ManyToOneTable_scheme \<Rightarrow> outcome \<times> (int, 'f, 'z) ManyToOneTable_scheme" where
  "ManyToOneTable_id_row row self =
     (if truthy (snd row)
      then (case adapt self (snd row) of
              Inl e \<Rightarrow> (Raised e, self)
            | Inr v \<Rightarrow> (Returned, self\<lparr>id_map := (id_map self)(fst row \<mapsto> v)\<rparr>))
      else (Returned, self))"

definition ManyToOneTable_read_id_maps ::
  "(int, 'f, 'z) ManyToOneTable_scheme \<Rightarrow> db \<Rightarrow> outcome \<times> (int, 'f, 'z) ManyToOneTable_scheme" where
  "ManyToOneTable_read_id_maps self db =
     (case getitem (metadata self) ''name'' of
        Inl e \<Rightarrow> (Raised e, self)
      | Inr col \<Rightarrow>
          (case getitem (metadata self) ''table'' of
             Inl e \<Rightarrow> (Raised e, self)
           | Inr tb \<Rightarrow>
               for_query (execute_values db (''SELECT id, '' @ str_of col @ '' FROM '' @ str_of tb))
                 ManyToOneTable_id_row self))"

text \<open>
  The body of the loop of \<open>ManyToOneTable.read_maps\<close>:
  \<^verbatim>\<open>
  if row[1] not in self.col_book_map:
      self.col_book_map[row[1]] = []
  self.col_book_map.append(row[0])
  self.book_col_map[row[0]] = row[1]
  \<close>
\<close>

definition ManyToOneTable_link_row ::
  "int \<times> int \<Rightarrow> (int, int, 'z) ManyToOneTable_scheme \<Rightarrow> outcome \<times> (int, int, 'z) ManyToOneTable_scheme" where
  "ManyToOneTable_link_row row self =
     (let self1 = (if col_book_map self (snd row) = None
                   then self\<lparr>col_book_map := (col_book_map self)(snd row \<mapsto> [])\<rparr>
                   else self)
      in case dict_append (col_book_map self1) (fst row) of
           Inl e \<Rightarrow> (Raised e, self1)
         | Inr u \<Rightarrow>
             (Returned, self1\<lparr>book_col_map := (book_col_map self1)(fst row \<mapsto> snd row)\<rparr>))"

definition link_query :: "'z Table_scheme \<Rightarrow> py_error + string" where
  "link_query self =
     (case getitem (metadata self) ''link_column'' of
        Inl e \<Rightarrow> Inl e
      | Inr col \<Rightarrow> Inr (''SELECT book, '' @ str_of col @ '' FROM '' @ link_table self))"

definition ManyToOneTable_read_maps ::
  "(int, int, 'z) ManyToOneTable_scheme \<Rightarrow> db \<Rightarrow> outcome \<times> (int, int, 'z) ManyToOneTable_scheme" where
  "ManyToOneTable_read_maps self db =
     (case link_query self of
        Inl e \<Rightarrow> (Raised e, self)
      | Inr q \<Rightarrow> for_query (execute_links db q) ManyToOneTable_link_row self)"

definition ManyToOneTable_read :: "Table \<Rightarrow> db \<Rightarrow> outcome \<times> (int, int) ManyToOneTable" where
  "ManyToOneTable_read t db =
     (case ManyToOneTable_read_id_maps (unloaded_ManyToOneTable t) db of
        (Raised e, self) \<Rightarrow> (Raised e, self)
      | (Returned, self) \<Rightarrow> ManyToOneTable_read_maps self db)"

section \<open>ManyToManyTable\<close>

text \<open>
  \<open>self.book_col_map[book].append(item)\<close>: the subscript reads the list stored for the book
  (\<open>KeyError\<close> when there is none) and \<open>append\<close> extends that list in place.
\<close>

definition list_append_at :: "('k \<rightharpoonup> 'v list) \<Rightarrow> 'k \<Rightarrow> 'v \<Rightarrow> py_error + ('k \<rightharpoonup> 'v list)" where
  "list_append_at d k x =
     (case d k of
        None \<Rightarrow> Inl KeyError
      | Some xs \<Rightarrow> Inr (d(k \<mapsto> xs @ [x])))"

text \<open>
  The statements \<open>ManyToManyTable.read_maps\<close>, \<open>FormatsTable.read_maps\<close> and
  \<open>IdentifiersTable.read_maps\<close> repeat for a book, an attribute id and the item to record:
  \<^verbatim>\<open>
  if attr not in self.col_book_map:
      self.col_book_map[attr] = []
  self.col_book_map.append(book)
  if book not in self.book_col_map:
      self.book_col_map[book] = []
  self.book_col_map[book].append(item)
  \<close>
\<close>

definition link_both ::
  "int \<Rightarrow> 'a \<Rightarrow> 'i \<Rightarrow> ('a, 'i list, 'z) ManyToOneTable_scheme \<Rightarrow> outcome \<times> ('a, 'i list, 'z) ManyToOneTable_scheme" where
  "link_both book attr item self =
     (let self1 = (if col_book_map self attr = None
                   then self\<lparr>col_book_map := (col_book_map self)(attr \<mapsto> [])\<rparr>
                   else self)
      in case dict_append (col_book_map self1) book of
           Inl e \<Rightarrow> (Raised e, self1)
         | Inr u \<Rightarrow>
             (let self2 = (if book_col_map self1 book = None
                           then self1\<lparr>book_col_map := (book_col_map self1)(book \<mapsto> [])\<rparr>
                           else self1)
              in case list_append_at (book_col_map self2) book item of
                   Inl e \<Rightarrow> (Raised e, self2)
                 | Inr m \<Rightarrow> (Returned, self2\<lparr>book_col_map := m\<rparr>)))"

definition ManyToManyTable_link_row ::
  "int \<times> int \<Rightarrow> (int, int list, 'z) ManyToOneTable_scheme \<Rightarrow> outcome \<times> (int, int list, 'z) ManyToOneTable_scheme" where
  "ManyToManyTable_link_row row self = link_both (fst row) (snd row) (snd row) self"

definition ManyToManyTable_read_maps ::
  "(int, int list, 'z) ManyToOneTable_scheme \<Rightarrow> db \<Rightarrow> outcome \<times> (int, int list, 'z) ManyToOneTable_scheme" where
  "ManyToManyTable_read_maps self db =
     (case link_query self of
        Inl e \<Rightarrow> (Raised e, self)
      | Inr q \<Rightarrow> for_query (execute_links db q) ManyToManyTable_link_row self)"

definition ManyToManyTable_read :: "Table \<Rightarrow> db \<Rightarrow> outcome \<times> (int, int list) ManyToOneTable" where
  "ManyToManyTable_read t db =
     (case ManyToOneTable_read_id_maps (unloaded_ManyToOneTable t) db of
        (Raised e, self) \<Rightarrow> (Raised e, self)
      | (Returned, self) \<Rightarrow> ManyToManyTable_read_maps self db)"

section \<open>AuthorsTable\<close>

record AuthorsTable = "(int, int list) ManyToOneTable" +
  alink_map :: "int \<rightharpoonup> pyval"

text \<open>
  The body of the loop of \<open>AuthorsTable.read_id_maps\<close>:
  \<^verbatim>\<open>
  self.id_map[row[0]] = row[1]
  self.extra_map[row[0]] = (row[2] if row[2] else author_to_author_sort(row[1]))
  self.alink_map[row[0]] = row[3]
  \<close>
\<close>

definition AuthorsTable_id_row ::
  "module_env \<Rightarrow> int \<times> pyval \<times> pyval \<times> pyval \<Rightarrow> AuthorsTable \<Rightarrow> outcome \<times> AuthorsTable" where
  "AuthorsTable_id_row env row self =
     (case row of (row0, row1, row2, row3) \<Rightarrow>
        (let self1 = self\<lparr>id_map := (id_map self)(row0 \<mapsto> row1)\<rparr> in
         case (if truthy row2 then Inr row2 else author_to_author_sort env row1) of
           Inl e \<Rightarrow> (Raised e, self1)
         | Inr asort \<Rightarrow>
             (Returned, self1\<lparr>extra_map := (extra_map self1)(row0 \<mapsto> asort),
                              alink_map := (alink_map self1)(row0 \<mapsto> row3)\<rparr>)))"

definition AuthorsTable_read_id_maps :: "module_env \<Rightarrow> AuthorsTable \<Rightarrow> db \<Rightarrow> outcome \<times> AuthorsTable" where
  "AuthorsTable_read_id_maps env self db =
     for_query (execute_authors db ''SELECT id, name, sort, link FROM authors'')
       (AuthorsTable_id_row env) (self\<lparr>alink_map := Map.empty\<rparr>)"

definition unloaded_AuthorsTable :: "Table \<Rightarrow> AuthorsTable" where
  "unloaded_AuthorsTable t =
     \<lparr>name = name t, metadata = metadata t, adapt = adapt t, link_table = link_table t,
      id_map = Map.empty, extra_map = Map.empty, col_book_map = Map.empty,
      book_col_map = Map.empty, alink_map = Map.empty\<rparr>"

definition AuthorsTable_read :: "module_env \<Rightarrow> Table \<Rightarrow> db \<Rightarrow> outcome \<times> AuthorsTable" where
  "AuthorsTable_read env t db =
     (case AuthorsTable_read_id_maps env (unloaded_AuthorsTable t) db of
        (Raised e, self) \<Rightarrow> (Raised e, self)
      | (Returned, self) \<Rightarrow> ManyToManyTable_read_maps self db)"

section \<open>FormatsTable\<close>

text \<open>
  \<open>FormatsTable.read_maps\<close>: rows \<open>(book, format, name)\<close> of the data table; a row whose
  format \<open>is None\<close> is passed over, any other records the pair \<open>(format, name)\<close>.
  \<open>read_id_maps\<close> is \<open>pass\<close>.
\<close>

definition FormatsTable_link_row ::
  "int \<times> string option \<times> string option \<Rightarrow> (string, (string \<times> string option) list) ManyToOneTable
     \<Rightarrow> outcome \<times> (string, (string \<times> string option) list) ManyToOneTable" where
  "FormatsTable_link_row row self =
     (case row of (row0, row1, row2) \<Rightarrow>
        (case row1 of
           None \<Rightarrow> (Returned, self)
         | Some fmt \<Rightarrow> link_both row0 fmt (fmt, row2) self))"

definition FormatsTable_read_maps ::
  "(string, (string \<times> string option) list) ManyToOneTable \<Rightarrow> db
     \<Rightarrow> outcome \<times> (string, (string \<times> string option) list) ManyToOneTable" where
  "FormatsTable_read_maps self db =
     for_query (execute_data db ''SELECT book, format, name FROM data'') FormatsTable_link_row self"

definition FormatsTable_read ::
  "Table \<Rightarrow> db \<Rightarrow> outcome \<times> (string, (string \<times> string option) list) ManyToOneTable" where
  "FormatsTable_read t db = FormatsTable_read_maps (unloaded_ManyToOneTable t) db"

section \<open>Sample environment, tables and stores\<close>

text \<open>
  Concrete inputs for the examples below: imported functions with a fixed behaviour (a fast
  parser that returns \<open>None\<close> on fewer than 19 characters and raises otherwise, a flexible
  parser that raises unless asked for UTC), tables as \<open>Table.__init__\<close> builds them, and
  stores that answer every query of one row shape with the given rows.
\<close>

definition sample_env :: module_env where
  "sample_env =
     \<lparr>speedup_parse_date = (\<lambda>s. if length s < 19 then Inr None else Inl ValueError),
      parse_date = (\<lambda>v as_utc. if as_utc then Inr PyNone
                                else Inl (OtherError ''unknown string format'')),
      datetime_astimezone_local = (\<lambda>(y, mo, d, h, mi, s, tz). Inr (PyDatetime y mo d h mi s tz)),
      author_to_author_sort = (\<lambda>v. Inr v)\<rparr>"

definition series_table :: Table where
  "series_table =
     \<lparr>name = ''series'',
      metadata = [''datatype'' \<mapsto> Some ''series'', ''table'' \<mapsto> Some ''series'',
                  ''name'' \<mapsto> Some ''name'', ''link_column'' \<mapsto> Some ''series''],
      adapt = Inr, link_table = ''books_series_link''\<rparr>"

definition tags_table :: Table where
  "tags_table =
     \<lparr>name = ''tags'',
      metadata = [''datatype'' \<mapsto> Some ''text'', ''table'' \<mapsto> Some ''tags'',
                  ''name'' \<mapsto> Some ''name'', ''link_column'' \<mapsto> Some ''tag''],
      adapt = Inr, link_table = ''books_tags_link''\<rparr>"

definition formats_table :: Table where
  "formats_table =
     \<lparr>name = ''formats'',
      metadata = [''datatype'' \<mapsto> Some ''text'', ''table'' \<mapsto> None],
      adapt = Inr, link_table = ''books_None_link''\<rparr>"

definition size_table :: Table where
  "size_table =
     \<lparr>name = ''size'',
      metadata = [''datatype'' \<mapsto> Some ''float'', ''table'' \<mapsto> None],
      adapt = Inr, link_table = ''books_None_link''\<rparr>"

definition read_table :: Table where
  "read_table =
     \<lparr>name = ''#read'',
      metadata = [''datatype'' \<mapsto> Some ''bool'', ''table'' \<mapsto> Some ''custom_column_1''],
      adapt = py_bool, link_table = ''books_custom_column_1_link''\<rparr>"

definition authors_table :: "string \<Rightarrow> Table" where
  "authors_table dt =
     \<lparr>name = ''authors'',
      metadata = [''datatype'' \<mapsto> Some dt, ''table'' \<mapsto> Some ''authors'',
                  ''link_column'' \<mapsto> Some ''author''],
      adapt = authors_adapt, link_table = ''books_authors_link''\<rparr>"

definition link_store :: "(int \<times> int) list \<Rightarrow> db" where
  "link_store rows =
     \<lparr>execute_values = (\<lambda>q. Inr []), execute_links = (\<lambda>q. Inr rows),
      execute_authors = (\<lambda>q. Inr []), execute_data = (\<lambda>q. Inr [])\<rparr>"

definition data_store :: "(int \<times> string option \<times> string option) list \<Rightarrow> db" where
  "data_store rows =
     \<lparr>execute_values = (\<lambda>q. Inr []), execute_links = (\<lambda>q. Inr []),
      execute_authors = (\<lambda>q. Inr []), execute_data = (\<lambda>q. Inr rows)\<rparr>"

text \<open>A store that answers every (id, value) query with the given rows.\<close>

definition value_store :: "(int \<times> pyval) list \<Rightarrow> db" where
  "value_store rows =
     \<lparr>execute_values = (\<lambda>q. Inr rows), execute_links = (\<lambda>q. Inr []),
      execute_authors = (\<lambda>q. Inr []), execute_data = (\<lambda>q. Inr [])\<rparr>"

definition authors_store :: "(int \<times> pyval \<times> pyval \<times> pyval) list \<Rightarrow> db" where
  "authors_store rows =
     \<lparr>execute_values = (\<lambda>q. Inr []), execute_links = (\<lambda>q. Inr []),
      execute_authors = (\<lambda>q. Inr rows), execute_data = (\<lambda>q. Inr [])\<rparr>"

section \<open>The store's answer to the size query\<close>

text \<open>
  Modelled from the spec: the backing store is outside the source file (section 6 of the
  specification: \<open>execute(queryText)\<close> answers an ordered sequence of tuples, and section
  4.2: the size query aggregates over the per-book collection of size values at the source).
  What the store makes of a query text is modelled for the fragment of SQL the size query is
  written in,
  \<^verbatim>\<open>SELECT c, (SELECT f(c') FROM t' WHERE l=r) FROM t\<close>
  with \<open>f\<close> one of \<open>MAX\<close> and \<open>MIN\<close>: one row for each row of \<open>t\<close>, carrying its column \<open>c\<close> and
  the aggregate of \<open>c'\<close> over the rows of \<open>t'\<close> for which \<open>l = r\<close>. Every other text is a syntax
  error.
\<close>

type_synonym sql_row = "string \<rightharpoonup> int"

datatype aggregate = Agg_MAX | Agg_MIN

record select_aggregate =
  outer_column :: string
  aggregate_fn :: aggregate
  aggregate_column :: string
  inner_table :: string
  where_left :: string
  where_right :: string
  outer_table :: string

text \<open>Words are separated by spaces; each of \<open>( ) , =\<close> is a word of its own.\<close>

fun sql_tokens :: "string \<Rightarrow> string \<Rightarrow> string list" where
  "sql_tokens w [] = (if w = [] then [] else [w])"
| "sql_tokens w (c # cs) =
     (if c = CHR '' '' then (if w = [] then [] else [w]) @ sql_tokens [] cs
      else if c \<in> set ''(),='' then (if w = [] then [] else [w]) @ [c] # sql_tokens [] cs
      else sql_tokens (w @ [c]) cs)"

text \<open>The one form of query the fragment has, with its seven names read off.\<close>

definition sql_parse :: "string list \<Rightarrow> select_aggregate option" where
  "sql_parse toks =
     (case toks of
        [k1, c0, cm, lp1, k2, f, lp2, c1, rp2, k3, t1, k4, l, eq, r, rp1, k5, t0] \<Rightarrow>
          (if [k1, cm, lp1, k2, lp2, rp2, k3, k4, eq, rp1, k5]
                = [''SELECT'', '','', ''('', ''SELECT'', ''('', '')'', ''FROM'', ''WHERE'', ''='',
                   '')'', ''FROM'']
           then (case map_of [(''MAX'', Agg_MAX), (''MIN'', Agg_MIN)] f of
                   None \<Rightarrow> None
                 | Some a \<Rightarrow>
                     Some \<lparr>outer_column = c0, aggregate_fn = a, aggregate_column = c1,
                           inner_table = t1, where_left = l, where_right = r,
                           outer_table = t0\<rparr>)
           else None)
      | _ \<Rightarrow> None)"

text \<open>
  A column reference \<open>t.c\<close> or \<open>c\<close>, looked up in the rows in scope, innermost first: the
  first row whose table is \<open>t\<close> (any table, for an unqualified name) and that has the column.
\<close>

definition split_qualifier :: "string \<Rightarrow> string option \<times> string" where
  "split_qualifier c =
     (if CHR ''.'' \<in> set c
      then (Some (takeWhile (\<lambda>x. x \<noteq> CHR ''.'') c), tl (dropWhile (\<lambda>x. x \<noteq> CHR ''.'') c))
      else (None, c))"

fun sql_column :: "(string \<times> sql_row) list \<Rightarrow> string option \<times> string \<Rightarrow> int option" where
  "sql_column [] ref = None"
| "sql_column ((t, row) # scopes) (q, c) =
     (if (q = None \<or> q = Some t) \<and> row c \<noteq> None then row c
      else sql_column scopes (q, c))"

text \<open>\<open>MAX\<close> and \<open>MIN\<close> over the selected values; over no values the result is NULL.\<close>

definition sql_aggregate :: "aggregate \<Rightarrow> int list \<Rightarrow> pyval" where
  "sql_aggregate a vs =
     (case vs of
        [] \<Rightarrow> PyNone
      | v # vs' \<Rightarrow> PyInt (fold (case a of Agg_MAX \<Rightarrow> max | Agg_MIN \<Rightarrow> min) vs' v))"

text \<open>
  A row of the inner table, for a row of the outer one: whether it satisfies the \<open>WHERE\<close>
  equation, and its value of the aggregated column. Then the row of the answer for a row of
  the outer table, and the answer itself, in the order of the outer table's rows.
\<close>

definition sql_inner_row :: "select_aggregate \<Rightarrow> sql_row \<Rightarrow> sql_row \<Rightarrow> (bool \<times> int) option" where
  "sql_inner_row q outer_row inner_row =
     (let scopes = [(inner_table q, inner_row), (outer_table q, outer_row)] in
      case (sql_column scopes (split_qualifier (where_left q)),
            sql_column scopes (split_qualifier (where_right q)),
            sql_column scopes (split_qualifier (aggregate_column q))) of
        (Some l, Some r, Some v) \<Rightarrow> Some (l = r, v)
      | _ \<Rightarrow> None)"

definition sql_outer_row :: "select_aggregate \<Rightarrow> sql_row list \<Rightarrow> sql_row \<Rightarrow> (int \<times> pyval) option" where
  "sql_outer_row q inner outer_row =
     (case (sql_column [(outer_table q, outer_row)] (split_qualifier (outer_column q)),
            those (map (sql_inner_row q outer_row) inner)) of
        (Some i, Some tagged) \<Rightarrow>
          Some (i, sql_aggregate (aggregate_fn q) (map snd (filter fst tagged)))
      | _ \<Rightarrow> None)"

definition sql_eval :: "(string \<rightharpoonup> sql_row list) \<Rightarrow> select_aggregate \<Rightarrow> py_error + (int \<times> pyval) list" where
  "sql_eval tables q =
     (case (tables (outer_table q), tables (inner_table q)) of
        (Some outer, Some inner) \<Rightarrow>
          (case those (map (sql_outer_row q inner) outer) of
             None \<Rightarrow> Inl (OtherError ''no such column'')
           | Some rows \<Rightarrow> Inr rows)
      | _ \<Rightarrow> Inl (OtherError ''no such table''))"

definition sql_execute :: "(string \<rightharpoonup> sql_row list) \<Rightarrow> string \<Rightarrow> py_error + (int \<times> pyval) list" where
  "sql_execute tables text =
     (case sql_parse (sql_tokens [] text) of
        None \<Rightarrow> Inl (OtherError ''syntax error'')
      | Some q \<Rightarrow> sql_eval tables q)"

text \<open>
  Modelled from the spec: a store holding a \<open>books\<close> table (column \<open>id\<close>) and a \<open>data\<close> table (columns \<open>book\<close> and
  \<open>uncompressed_size\<close>), given by the list of book ids and the list of (book, size) pairs.
  SQLite keeps an INTEGER in 64 bits, signed. \<open>uncompressed_sizes\<close> are the sizes of the data
  rows of a book, in row order.
\<close>

definition sqlite_integer :: "int \<Rightarrow> bool" where
  "sqlite_integer i = (- (2 ^ 63) \<le> i \<and> i < 2 ^ 63)"

definition catalog :: "int list \<Rightarrow> (int \<times> int) list \<Rightarrow> (string \<rightharpoonup> sql_row list)" where
  "catalog books data =
     [''books'' \<mapsto> map (\<lambda>b. [''id'' \<mapsto> b]) books,
      ''data'' \<mapsto> map (\<lambda>row. [''book'' \<mapsto> fst row, ''uncompressed_size'' \<mapsto> snd row]) data]"

definition uncompressed_sizes :: "(int \<times> int) list \<Rightarrow> int \<Rightarrow> int list" where
  "uncompressed_sizes data b = map snd (filter (\<lambda>row. fst row = b) data)"

definition size_store :: "int list \<Rightarrow> (int \<times> int) list \<Rightarrow> db" where
  "size_store books data =
     \<lparr>execute_values = sql_execute (catalog books data),
      execute_links = (\<lambda>q. Inr []),
      execute_authors = (\<lambda>q. Inr []), execute_data = (\<lambda>q. Inr [])\<rparr>"

section \<open>The sample tables are what the constructor builds\<close>

lemma series_table_init:
  "Table_init sample_env ''series'' (metadata series_table) None = Inr series_table"
  by (simp add: Table_init_def getitem_def series_table_def str_of_def)

lemma tags_table_init:
  "Table_init sample_env ''tags'' (metadata tags_table) None = Inr tags_table"
  by (simp add: Table_init_def getitem_def tags_table_def str_of_def)

lemma formats_table_init:
  "Table_init sample_env ''formats'' (metadata formats_table) None = Inr formats_table"
  by (simp add: Table_init_def getitem_def formats_table_def str_of_def)

lemma size_table_init:
  "Table_init sample_env ''size'' (metadata size_table) None = Inr size_table"
  by (simp add: Table_init_def getitem_def size_table_def str_of_def)

lemma read_table_init:
  "Table_init sample_env ''#read'' (metadata read_table) None = Inr read_table"
  by (simp add: Table_init_def getitem_def read_table_def str_of_def)

lemma authors_table_init:
  "Table_init sample_env ''authors'' (metadata (authors_table dt)) None = Inr (authors_table dt)"
  by (simp add: Table_init_def getitem_def authors_table_def str_of_def)

section \<open>The adapters\<close>

text \<open>Which adapter a constructed table carries.\<close>

lemma Table_init_adapt:
  assumes "Table_init env nm md lt = Inr t"
  shows "\<exists>dt. md ''datatype'' = Some dt \<and>
           adapt t = (if nm = ''authors'' then authors_adapt
                      else if dt = Some ''datetime'' then (\<lambda>x. snd (c_convert_timestamp env x))
                      else if dt = Some ''bool'' then py_bool
                      else Inr)"
proof (cases "md ''datatype''")
  case None
  with assms show ?thesis by (simp add: Table_init_def getitem_def)
next
  case (Some dt)
  with assms have "adapt t = (if nm = ''authors'' then authors_adapt
                      else if dt = Some ''datetime'' then (\<lambda>x. snd (c_convert_timestamp env x))
                      else if dt = Some ''bool'' then py_bool
                      else Inr)"
    apply (simp only: Table_init_def getitem_def Let_def option.case sum.case)
    apply (auto split: sum.splits option.splits if_splits)
    done
  with Some show ?thesis by blast
qed

text \<open>
  C3, as the code has it. For a table whose metadata declares the datatype \<open>'bool'\<close> and
  whose name is not \<open>'authors'\<close>, the adapter is the builtin \<open>bool\<close>: it maps every raw
  value, null included, to its truthiness, so null is adapted to \<open>False\<close>.
\<close>

theorem bool_adapter_is_truthiness:
  assumes "Table_init env nm md lt = Inr t"
    and "md ''datatype'' = Some (Some ''bool'')"
    and "nm \<noteq> ''authors''"
  shows "adapt t x = Inr (PyBool (truthy x))"
proof -
  from Table_init_adapt [OF assms(1)] assms(2,3) have "adapt t = py_bool" by auto
  then show ?thesis by (simp add: py_bool_def)
qed

theorem bool_adapter_is_truthiness_witness:
  "Table_init sample_env ''#read'' (metadata read_table) None = Inr read_table
   \<and> metadata read_table ''datatype'' = Some (Some ''bool'')
   \<and> ''#read'' \<noteq> ''authors''
   \<and> adapt read_table PyNone = Inr (PyBool False)
   \<and> adapt read_table (PyInt 1) = Inr (PyBool True)
   \<and> adapt read_table (PyStr []) = Inr (PyBool False)"
proof -
  have md: "metadata read_table ''datatype'' = Some (Some ''bool'')"
    by (simp add: read_table_def)
  have nm: "''#read'' \<noteq> ''authors''" by simp
  note inst = bool_adapter_is_truthiness [OF read_table_init md nm]
  from inst [of PyNone] inst [of "PyInt 1"] inst [of "PyStr []"] read_table_init md nm
  show ?thesis by simp
qed

text \<open>
  C3, as stated, fails: the table \<open>#read\<close> declares the datatype \<open>'bool'\<close> and is not named
  \<open>'authors'\<close>, and its adapter maps null to \<open>False\<close>, not to null.
\<close>

theorem bool_adapter_null_counterexample:
  "Table_init sample_env ''#read'' (metadata read_table) None = Inr read_table
   \<and> metadata read_table ''datatype'' = Some (Some ''bool'')
   \<and> name read_table \<noteq> ''authors''
   \<and> adapt read_table PyNone = Inr (PyBool False)
   \<and> adapt read_table PyNone \<noteq> Inr PyNone"
  by (simp add: Table_init_def getitem_def read_table_def str_of_def py_bool_def)

text \<open>
  C6. The adapter of the table named \<open>'authors'\<close> maps null, the empty string and every other
  falsy value to null, and a non-empty string to the string with every \<open>|\<close> replaced by
  \<open>,\<close>.
\<close>

theorem authors_adapter_pipe_to_comma:
  assumes "Table_init env ''authors'' md lt = Inr t"
  shows "(\<not> truthy x \<longrightarrow> adapt t x = Inr PyNone)
         \<and> (s \<noteq> [] \<longrightarrow>
              adapt t (PyStr s) = Inr (PyStr (map (\<lambda>c. if c = CHR ''|'' then CHR '','' else c) s)))"
proof -
  from Table_init_adapt [OF assms] have "adapt t = authors_adapt" by auto
  then show ?thesis by (simp add: authors_adapt_def replace_def)
qed

theorem authors_adapter_pipe_to_comma_witness:
  "Table_init sample_env ''authors'' (metadata (authors_table ''text'')) None
     = Inr (authors_table ''text'')
   \<and> adapt (authors_table ''text'') (PyStr ''Smith|Jones'') = Inr (PyStr ''Smith,Jones'')
   \<and> adapt (authors_table ''text'') PyNone = Inr PyNone
   \<and> adapt (authors_table ''text'') (PyStr []) = Inr PyNone"
proof -
  note inst = authors_adapter_pipe_to_comma [OF authors_table_init [of "''text''"]]
  from inst [of PyNone "''Smith|Jones''"] inst [of "PyStr []" "''Smith|Jones''"]
    authors_table_init [of "''text''"]
  show ?thesis by simp
qed

text \<open>
  C8. Whatever datatype the metadata declares (\<open>'datetime'\<close> and \<open>'bool'\<close> included), a table
  constructed with the name \<open>'authors'\<close> carries the legacy pipe-to-comma adapter.
\<close>

theorem authors_name_overrides_datatype:
  assumes "Table_init env ''authors'' md lt = Inr t"
  shows "adapt t = authors_adapt"
  using Table_init_adapt [OF assms] by auto

theorem authors_name_overrides_datatype_witness:
  "Table_init sample_env ''authors'' (metadata (authors_table ''datetime'')) None
     = Inr (authors_table ''datetime'')
   \<and> metadata (authors_table ''datetime'') ''datatype'' = Some (Some ''datetime'')
   \<and> adapt (authors_table ''datetime'') = authors_adapt
   \<and> Table_init sample_env ''authors'' (metadata (authors_table ''bool'')) None
     = Inr (authors_table ''bool'')
   \<and> metadata (authors_table ''bool'') ''datatype'' = Some (Some ''bool'')
   \<and> adapt (authors_table ''bool'') = authors_adapt"
proof -
  have "metadata (authors_table ''datetime'') ''datatype'' = Some (Some ''datetime'')"
    and "metadata (authors_table ''bool'') ''datatype'' = Some (Some ''bool'')"
    by (simp_all add: authors_table_def)
  with authors_name_overrides_datatype [OF authors_table_init [of "''datetime''"]]
    authors_name_overrides_datatype [OF authors_table_init [of "''bool''"]]
    authors_table_init [of "''datetime''"] authors_table_init [of "''bool''"]
  show ?thesis by blast
qed

text \<open>
  C5. \<open>_c_convert_timestamp\<close>: a falsy value gives null and no parser is called. For a truthy
  value, when the fast parser raises (any exception) or returns \<open>None\<close>, or when \<open>val.strip()\<close>
  itself raises, the flexible parser is called on the value as it came, with
  \<open>as_utc=False\<close>, and what it returns or raises is the result.
\<close>

theorem c_convert_timestamp_policy:
  "(\<not> truthy val \<longrightarrow> c_convert_timestamp env val = ([], Inr PyNone))
   \<and> (truthy val \<and> strip val = Inr s
        \<and> (speedup_parse_date env s = Inr None \<or> speedup_parse_date env s = Inl e)
      \<longrightarrow> c_convert_timestamp env val
            = ([Call_speedup_parse_date s, Call_parse_date val False], parse_date env val False))
   \<and> (truthy val \<and> strip val = Inl e'
      \<longrightarrow> c_convert_timestamp env val
            = ([Call_parse_date val False], parse_date env val False))"
  by (auto simp: c_convert_timestamp_def try_speedup_def)

theorem c_convert_timestamp_policy_witness:
  "c_convert_timestamp sample_env PyNone = ([], Inr PyNone)
   \<and> c_convert_timestamp sample_env (PyStr []) = ([], Inr PyNone)
   \<and> c_convert_timestamp sample_env (PyStr '' 2011-09-01 '')
       = ([Call_speedup_parse_date ''2011-09-01'', Call_parse_date (PyStr '' 2011-09-01 '') False],
          Inl (OtherError ''unknown string format''))
   \<and> c_convert_timestamp sample_env (PyStr ''2011-09-01 10:20:30 in the morning'')
       = ([Call_speedup_parse_date ''2011-09-01 10:20:30 in the morning'',
           Call_parse_date (PyStr ''2011-09-01 10:20:30 in the morning'') False],
          Inl (OtherError ''unknown string format''))
   \<and> c_convert_timestamp sample_env (PyInt 20110901)
       = ([Call_parse_date (PyInt 20110901) False], Inl (OtherError ''unknown string format''))"
proof -
  have s1: "strip (PyStr '' 2011-09-01 '') = Inr ''2011-09-01''"
    by (simp add: strip_def py_isspace_def)
  have s2: "strip (PyStr ''2011-09-01 10:20:30 in the morning'')
              = Inr ''2011-09-01 10:20:30 in the morning''"
    by (simp add: strip_def py_isspace_def)
  have s3: "strip (PyInt 20110901) = Inl AttributeError"
    by (simp add: strip_def)
  have p1: "speedup_parse_date sample_env ''2011-09-01'' = Inr None"
    by (simp add: sample_env_def)
  have p2: "speedup_parse_date sample_env ''2011-09-01 10:20:30 in the morning'' = Inl ValueError"
    by (simp add: sample_env_def)
  have f: "parse_date sample_env v False = Inl (OtherError ''unknown string format'')" for v
    by (simp add: sample_env_def)
  from c_convert_timestamp_policy [of PyNone sample_env]
    c_convert_timestamp_policy [of "PyStr []" sample_env]
    c_convert_timestamp_policy [of "PyStr '' 2011-09-01 ''" sample_env "''2011-09-01''"]
    c_convert_timestamp_policy [of "PyStr ''2011-09-01 10:20:30 in the morning''" sample_env
      "''2011-09-01 10:20:30 in the morning''" ValueError]
    c_convert_timestamp_policy [of "PyInt 20110901" sample_env _ _ AttributeError]
    s1 s2 s3 p1 p2 f
  show ?thesis by simp
qed

section \<open>The link pass\<close>

text \<open>
  Every link pass runs \<open>self.col_book_map.append(row[0])\<close> on the dict itself. The first row
  that reaches this statement ends the pass with \<open>AttributeError\<close>: the inverse index has at
  most gained the key of that row with an empty list, and the forward index is untouched.
  A pass returns only when no row reaches the statement.
\<close>

lemma ManyToOneTable_read_maps_no_rows:
  assumes "link_query self = Inr q" and "execute_links db q = Inr []"
  shows "ManyToOneTable_read_maps self db = (Returned, self)"
  using assms by (simp add: ManyToOneTable_read_maps_def for_query_def)

lemma ManyToManyTable_read_maps_no_rows:
  assumes "link_query self = Inr q" and "execute_links db q = Inr []"
  shows "ManyToManyTable_read_maps self db = (Returned, self)"
  using assms by (simp add: ManyToManyTable_read_maps_def for_query_def)

lemma ManyToOneTable_read_maps_aborts:
  assumes "link_query self = Inr q" and "execute_links db q = Inr (row # rows)"
  shows "ManyToOneTable_read_maps self db =
           (Raised AttributeError,
            if col_book_map self (snd row) = None
            then self\<lparr>col_book_map := (col_book_map self)(snd row \<mapsto> [])\<rparr> else self)"
  using assms
  by (simp add: ManyToOneTable_read_maps_def for_query_def ManyToOneTable_link_row_def
      dict_append_def Let_def)

lemma ManyToManyTable_read_maps_aborts:
  assumes "link_query self = Inr q" and "execute_links db q = Inr (row # rows)"
  shows "ManyToManyTable_read_maps self db =
           (Raised AttributeError,
            if col_book_map self (snd row) = None
            then self\<lparr>col_book_map := (col_book_map self)(snd row \<mapsto> [])\<rparr> else self)"
  using assms
  by (simp add: ManyToManyTable_read_maps_def for_query_def ManyToManyTable_link_row_def
      link_both_def dict_append_def Let_def)

text \<open>
  \<open>FormatsTable.read_maps\<close> passes over the rows whose format is NULL and stops at the first
  row that has a format.
\<close>

lemma FormatsTable_loop:
  "for_rows FormatsTable_link_row rows self =
     (case List.map_filter (\<lambda>row. fst (snd row)) rows of
        [] \<Rightarrow> (Returned, self)
      | fmt # fmts \<Rightarrow>
          (Raised AttributeError,
           if col_book_map self fmt = None
           then self\<lparr>col_book_map := (col_book_map self)(fmt \<mapsto> [])\<rparr> else self))"
proof (induction rows)
  case Nil
  show ?case by (simp add: List.map_filter_simps)
next
  case (Cons row rows)
  obtain b f n where row: "row = (b, f, n)" by (cases row)
  show ?case
  proof (cases f)
    case None
    with row Cons show ?thesis
      by (simp add: FormatsTable_link_row_def List.map_filter_simps)
  next
    case (Some fmt)
    with row show ?thesis
      by (simp add: FormatsTable_link_row_def List.map_filter_simps link_both_def
          dict_append_def Let_def)
  qed
qed

text \<open>
  C1. A many-to-many table built from a sequence of link rows has \<open>b\<close> in
  \<open>col_book_map[a]\<close> exactly when \<open>a\<close> is in \<open>book_col_map[b]\<close>. On the single link row
  (book 1, attribute 2) \<open>ManyToManyTable.read_maps\<close> does not build the table: it raises
  \<open>AttributeError\<close>, leaving \<open>col_book_map[2] = []\<close> and no entry for book 1 in
  \<open>book_col_map\<close>, and so \<open>read\<close> raises too.
\<close>

theorem ManyToManyTable_read_maps_failing_input:
  "fst (ManyToManyTable_read_maps (unloaded_ManyToOneTable tags_table) (link_store [(1, 2)]))
     = Raised AttributeError
   \<and> book_col_map (snd (ManyToManyTable_read_maps (unloaded_ManyToOneTable tags_table)
         (link_store [(1, 2)]))) 1 = None
   \<and> col_book_map (snd (ManyToManyTable_read_maps (unloaded_ManyToOneTable tags_table)
         (link_store [(1, 2)]))) 2 = Some []
   \<and> fst (ManyToManyTable_read tags_table (link_store [(1, 2)])) = Raised AttributeError"
  by (simp add: ManyToManyTable_read_def ManyToOneTable_read_id_maps_def
      ManyToManyTable_read_maps_def ManyToManyTable_link_row_def link_both_def
      link_query_def getitem_def tags_table_def unloaded_ManyToOneTable_def link_store_def
      for_query_def dict_append_def Let_def)

text \<open>
  C2. A many-to-one table built from a sequence of link rows has \<open>b\<close> in \<open>col_book_map[a]\<close>
  whenever \<open>book_col_map[b] = a\<close>. On the single link row (book 1, attribute 2)
  \<open>ManyToOneTable.read_maps\<close> does not build the table: it raises \<open>AttributeError\<close> before
  \<open>book_col_map[1]\<close> is written, leaving \<open>col_book_map[2] = []\<close>, and so \<open>read\<close> raises
  too.
\<close>

theorem ManyToOneTable_read_maps_failing_input:
  "fst (ManyToOneTable_read_maps (unloaded_ManyToOneTable series_table) (link_store [(1, 2)]))
     = Raised AttributeError
   \<and> book_col_map (snd (ManyToOneTable_read_maps (unloaded_ManyToOneTable series_table)
         (link_store [(1, 2)]))) 1 = None
   \<and> col_book_map (snd (ManyToOneTable_read_maps (unloaded_ManyToOneTable series_table)
         (link_store [(1, 2)]))) 2 = Some []
   \<and> fst (ManyToOneTable_read series_table (link_store [(1, 2)])) = Raised AttributeError"
  by (simp add: ManyToOneTable_read_def ManyToOneTable_read_id_maps_def
      ManyToOneTable_read_maps_def link_query_def getitem_def series_table_def
      unloaded_ManyToOneTable_def link_store_def for_query_def ManyToOneTable_link_row_def
      dict_append_def Let_def)

text \<open>
  C10. When several link rows name the same book, the forward map of a many-to-one table
  keeps the attribute id of the last of them. On the rows (book 1, attribute 2),
  (book 1, attribute 3) \<open>ManyToOneTable.read_maps\<close> raises \<open>AttributeError\<close> at the first
  row and \<open>book_col_map[1]\<close> is never written, so it is not 3.
\<close>

theorem ManyToOneTable_last_write_failing_input:
  "fst (ManyToOneTable_read_maps (unloaded_ManyToOneTable series_table)
          (link_store [(1, 2), (1, 3)])) = Raised AttributeError
   \<and> book_col_map (snd (ManyToOneTable_read_maps (unloaded_ManyToOneTable series_table)
         (link_store [(1, 2), (1, 3)]))) 1 = None"
  by (simp add: ManyToOneTable_read_maps_def link_query_def getitem_def series_table_def
      unloaded_ManyToOneTable_def link_store_def for_query_def ManyToOneTable_link_row_def
      dict_append_def Let_def)

text \<open>
  C4. A formats table records, for every data row with a format, the pair (format, name) in
  \<open>book_col_map[book]\<close> and the book in \<open>col_book_map[format]\<close>, in row order. On the rows
  (1, EPUB, book.epub), (1, PDF, book.pdf) \<open>FormatsTable.read_maps\<close> raises
  \<open>AttributeError\<close> at the first row: \<open>book_col_map[1]\<close> is absent and
  \<open>col_book_map[EPUB]\<close> is the empty list, and so \<open>read\<close> raises too.
\<close>

theorem FormatsTable_read_maps_failing_input:
  "fst (FormatsTable_read_maps (unloaded_ManyToOneTable formats_table)
          (data_store [(1, Some ''EPUB'', Some ''book.epub''), (1, Some ''PDF'', Some ''book.pdf'')]))
     = Raised AttributeError
   \<and> book_col_map (snd (FormatsTable_read_maps (unloaded_ManyToOneTable formats_table)
          (data_store [(1, Some ''EPUB'', Some ''book.epub''), (1, Some ''PDF'', Some ''book.pdf'')]))) 1
     = None
   \<and> col_book_map (snd (FormatsTable_read_maps (unloaded_ManyToOneTable formats_table)
          (data_store [(1, Some ''EPUB'', Some ''book.epub''), (1, Some ''PDF'', Some ''book.pdf'')]))) ''EPUB''
     = Some []
   \<and> fst (FormatsTable_read formats_table
          (data_store [(1, Some ''EPUB'', Some ''book.epub''), (1, Some ''PDF'', Some ''book.pdf'')]))
     = Raised AttributeError"
  by (simp add: FormatsTable_read_def FormatsTable_read_maps_def FormatsTable_link_row_def link_both_def
      formats_table_def unloaded_ManyToOneTable_def data_store_def
      for_query_def dict_append_def Let_def)

section \<open>SizeTable\<close>

text \<open>
  What the store reads in the text \<open>SizeTable.read\<close> sends: for each row of \<open>books\<close>, its \<open>id\<close>
  and the \<open>MAX\<close> of \<open>uncompressed_size\<close> over the rows of \<open>data\<close> whose \<open>book\<close> is that id.
\<close>

lemma size_query_tokens: "sql_tokens [] size_query =
  [''SELECT'', ''books.id'', '','', ''('', ''SELECT'', ''MAX'', ''('', ''uncompressed_size'', '')'',
   ''FROM'', ''data'', ''WHERE'', ''data.book'', ''='', ''books.id'', '')'', ''FROM'', ''books'']"
  by (simp add: size_query_def)

lemma size_query_parses: "sql_parse (sql_tokens [] size_query) =
   Some \<lparr>outer_column = ''books.id'', aggregate_fn = Agg_MAX,
         aggregate_column = ''uncompressed_size'', inner_table = ''data'',
         where_left = ''data.book'', where_right = ''books.id'', outer_table = ''books''\<rparr>"
  by (simp add: size_query_tokens sql_parse_def)

text \<open>
  The store's answer depends on the text: the same tables asked with \<open>MIN\<close> in place of
  \<open>MAX\<close> give the minimum, asked for another column give that column's maximum, and a text
  outside the fragment is refused.
\<close>

lemma size_store_reads_the_text:
  "execute_values (size_store [1] [(1, 100), (1, 250), (1, 50)])
      ''SELECT books.id, (SELECT MIN(uncompressed_size) FROM data WHERE data.book=books.id) FROM books''
     = Inr [(1, PyInt 50)]
   \<and> execute_values (size_store [1] [(1, 100), (1, 250), (1, 50)])
      ''SELECT books.id, (SELECT MAX(uncompressed_size) FROM data WHERE data.book=books.id) FROM books''
     = Inr [(1, PyInt 250)]
   \<and> execute_values (size_store [1] [(1, 100), (1, 250), (1, 50)])
      ''SELECT books.id, (SELECT MAX(book) FROM data WHERE data.book=books.id) FROM books''
     = Inr [(1, PyInt 1)]
   \<and> execute_values (size_store [1] [(1, 100), (1, 250), (1, 50)])
      ''SELECT books.id, (SELECT MAX(size) FROM data WHERE data.book=books.id) FROM books''
     = Inl (OtherError ''no such column'')
   \<and> execute_values (size_store [1] [(1, 100), (1, 250), (1, 50)]) ''SELECT id, size FROM books''
     = Inl (OtherError ''syntax error'')
   \<and> execute_values (size_store [1] [(1, 100), (1, 250), (1, 50)]) []
     = Inl (OtherError ''syntax error'')"
  by (simp add: size_store_def sql_execute_def sql_parse_def sql_eval_def catalog_def
      sql_outer_row_def sql_inner_row_def split_qualifier_def sql_aggregate_def)

text \<open>The answer to the size query over any list of books and any data rows.\<close>

lemma those_map_Some: "those (map (\<lambda>x. Some (f x)) xs) = Some (map f xs)"
  by (induction xs) simp_all

lemma split_data_book: "split_qualifier ''data.book'' = (Some ''data'', ''book'')"
  and split_books_id: "split_qualifier ''books.id'' = (Some ''books'', ''id'')"
  and split_uncompressed_size: "split_qualifier ''uncompressed_size'' = (None, ''uncompressed_size'')"
  by (simp_all add: split_qualifier_def)

lemma inner_row_eval:
  "sql_inner_row \<lparr>outer_column = ''books.id'', aggregate_fn = a,
         aggregate_column = ''uncompressed_size'', inner_table = ''data'',
         where_left = ''data.book'', where_right = ''books.id'', outer_table = ''books''\<rparr>
      [''id'' \<mapsto> b] [''book'' \<mapsto> bk, ''uncompressed_size'' \<mapsto> sz]
     = Some (bk = b, sz)"
  by (simp add: sql_inner_row_def split_data_book split_books_id split_uncompressed_size)

lemma tagged_sizes:
  "map snd (filter fst (map (\<lambda>row. (fst row = b, snd row)) data)) = uncompressed_sizes data b"
  by (induction data) (simp_all add: uncompressed_sizes_def)

lemma outer_row_eval:
  "sql_outer_row \<lparr>outer_column = ''books.id'', aggregate_fn = a,
         aggregate_column = ''uncompressed_size'', inner_table = ''data'',
         where_left = ''data.book'', where_right = ''books.id'', outer_table = ''books''\<rparr>
      (map (\<lambda>row. [''book'' \<mapsto> fst row, ''uncompressed_size'' \<mapsto> snd row]) data)
      [''id'' \<mapsto> b]
     = Some (b, sql_aggregate a (uncompressed_sizes data b))"
proof -
  have "those (map (sql_inner_row \<lparr>outer_column = ''books.id'', aggregate_fn = a,
         aggregate_column = ''uncompressed_size'', inner_table = ''data'',
         where_left = ''data.book'', where_right = ''books.id'', outer_table = ''books''\<rparr>
         [''id'' \<mapsto> b])
       (map (\<lambda>row. [''book'' \<mapsto> fst row, ''uncompressed_size'' \<mapsto> snd row]) data))
     = Some (map (\<lambda>row. (fst row = b, snd row)) data)"
    by (simp only: map_map o_def inner_row_eval those_map_Some)
  then show ?thesis
    by (simp add: sql_outer_row_def split_books_id tagged_sizes)
qed

lemma size_store_answer:
  "execute_values (size_store books data) size_query
     = Inr (map (\<lambda>b. (b, sql_aggregate Agg_MAX (uncompressed_sizes data b))) books)"
proof -
  have "those (map (sql_outer_row \<lparr>outer_column = ''books.id'', aggregate_fn = Agg_MAX,
         aggregate_column = ''uncompressed_size'', inner_table = ''data'',
         where_left = ''data.book'', where_right = ''books.id'', outer_table = ''books''\<rparr>
         (map (\<lambda>row. [''book'' \<mapsto> fst row, ''uncompressed_size'' \<mapsto> snd row]) data))
       (map (\<lambda>b. [''id'' \<mapsto> b]) books))
     = Some (map (\<lambda>b. (b, sql_aggregate Agg_MAX (uncompressed_sizes data b))) books)"
    by (simp only: map_map o_def outer_row_eval those_map_Some)
  then show ?thesis
    by (simp add: size_store_def sql_execute_def size_query_parses sql_eval_def catalog_def)
qed

lemma sql_aggregate_MAX:
  assumes "vs \<noteq> []"
  shows "sql_aggregate Agg_MAX vs = PyInt (Max (set vs))"
proof -
  from assms obtain v vs' where "vs = v # vs'" by (cases vs) auto
  then show ?thesis
    by (simp only: sql_aggregate_def list.case aggregate.case Max.set_eq_fold)
qed

text \<open>
  With the default adapter the loop of \<open>read\<close> copies each row into \<open>book_col_map\<close>, a later
  row for the same id replacing an earlier one; it computes nothing from the values.
\<close>

lemma OneToOneTable_loop_identity:
  assumes "adapt self = Inr"
  shows "for_rows OneToOneTable_row rows self =
           (Returned,
            self\<lparr>OneToOneTable.book_col_map :=
                   fold (\<lambda>row m. m(fst row \<mapsto> snd row)) rows (OneToOneTable.book_col_map self)\<rparr>)"
  using assms
proof (induction rows arbitrary: self)
  case Nil
  show ?case by simp
next
  case (Cons row rows)
  have step: "OneToOneTable_row row self =
      (Returned, self\<lparr>OneToOneTable.book_col_map := (OneToOneTable.book_col_map self)(fst row \<mapsto> snd row)\<rparr>)"
    using Cons.prems by (simp add: OneToOneTable_row_def)
  have "adapt (self\<lparr>OneToOneTable.book_col_map := (OneToOneTable.book_col_map self)(fst row \<mapsto> snd row)\<rparr>) = Inr"
    using Cons.prems by simp
  from Cons.IH [OF this] step show ?case by simp
qed

lemma fold_store_other:
  "b \<notin> set bs \<Longrightarrow> fold (\<lambda>row m. m(fst row \<mapsto> snd row)) (map (\<lambda>b. (b, f b)) bs) m b = m b"
  by (induction bs arbitrary: m) auto

lemma fold_store_lookup:
  "b \<in> set bs \<Longrightarrow>
     fold (\<lambda>row m. m(fst row \<mapsto> snd row)) (map (\<lambda>b. (b, f b)) bs) m b = Some (f b)"
proof (induction bs arbitrary: m)
  case Nil
  then show ?case by simp
next
  case (Cons a bs)
  show ?case
  proof (cases "b \<in> set bs")
    case True
    with Cons.IH show ?thesis by simp
  next
    case False
    with Cons.prems have "a = b" by simp
    have "fold (\<lambda>row m. m(fst row \<mapsto> snd row)) (map (\<lambda>b. (b, f b)) (a # bs)) m b
            = fold (\<lambda>row m. m(fst row \<mapsto> snd row)) (map (\<lambda>b. (b, f b)) bs) (m(a \<mapsto> f a)) b"
      by (simp only: list.map fold_simps fst_conv snd_conv)
    also have "\<dots> = (m(a \<mapsto> f a)) b"
      using False by (rule fold_store_other)
    also have "\<dots> = Some (f b)"
      using \<open>a = b\<close> by (simp only: fun_upd_same)
    finally show ?thesis .
  qed
qed

lemma SizeTable_read_stores_rows:
  assumes "adapt t = Inr" and "execute_values db size_query = Inr rows"
  shows "SizeTable_read t db =
           (Returned,
            (unloaded_OneToOneTable t)\<lparr>OneToOneTable.book_col_map :=
               fold (\<lambda>row m. m(fst row \<mapsto> snd row)) rows Map.empty\<rparr>)"
proof -
  from assms(1) have id: "adapt (unloaded_OneToOneTable t) = Inr"
    by (simp add: unloaded_OneToOneTable_def)
  have "SizeTable_read t db = for_rows OneToOneTable_row rows (unloaded_OneToOneTable t)"
    using assms(2) by (simp add: SizeTable_read_def for_query_def)
  also note OneToOneTable_loop_identity [OF id]
  finally show ?thesis by (simp add: unloaded_OneToOneTable_def)
qed

text \<open>
  C7. For a size table (one whose adapter is the default identity: its name is not
  \<open>'authors'\<close> and its datatype is neither \<open>'datetime'\<close> nor \<open>'bool'\<close>) read from a store of
  books and data rows that executes the query text it is sent: \<open>read\<close> returns, and for
  every book that has data rows \<open>book_col_map[book]\<close> is the maximum of the sizes of those
  rows. The maximum is taken by the store, because the text sent asks for \<open>MAX\<close>, and not in
  memory: whatever rows a store answers to the size query, \<open>read\<close> stores each row's value
  as it is, the last row for a book replacing the earlier ones.
\<close>

theorem SizeTable_read_maximum:
  assumes "Table_init env nm md lt = Inr t"
    and "nm \<noteq> ''authors''"
    and "md ''datatype'' \<noteq> Some (Some ''datetime'')"
    and "md ''datatype'' \<noteq> Some (Some ''bool'')"
    and "\<forall>bk \<in> set books. sqlite_integer bk"
    and "\<forall>row \<in> set data. sqlite_integer (fst row) \<and> sqlite_integer (snd row)"
    and "b \<in> set books"
    and "uncompressed_sizes data b \<noteq> []"
  shows "fst (SizeTable_read t (size_store books data)) = Returned
         \<and> OneToOneTable.book_col_map (snd (SizeTable_read t (size_store books data))) b
             = Some (PyInt (Max (set (uncompressed_sizes data b))))
         \<and> (execute_values db size_query = Inr rows \<longrightarrow>
              OneToOneTable.book_col_map (snd (SizeTable_read t db))
                = fold (\<lambda>row m. m(fst row \<mapsto> snd row)) rows Map.empty)"
proof -
  from Table_init_adapt [OF assms(1)] assms(2,3,4) have id: "adapt t = Inr" by auto
  note rd = SizeTable_read_stores_rows [OF id size_store_answer, of books data]
  have "fst (SizeTable_read t (size_store books data)) = Returned"
    by (simp add: rd)
  moreover have "OneToOneTable.book_col_map (snd (SizeTable_read t (size_store books data))) b
             = Some (PyInt (Max (set (uncompressed_sizes data b))))"
    using assms(7,8) by (simp add: rd fold_store_lookup sql_aggregate_MAX)
  moreover have "execute_values db size_query = Inr rows \<longrightarrow>
              OneToOneTable.book_col_map (snd (SizeTable_read t db))
                = fold (\<lambda>row m. m(fst row \<mapsto> snd row)) rows Map.empty"
    by (simp add: SizeTable_read_stores_rows [OF id])
  ultimately show ?thesis by blast
qed

theorem SizeTable_read_maximum_witness:
  "Table_init sample_env ''size'' (metadata size_table) None = Inr size_table
   \<and> ''size'' \<noteq> ''authors''
   \<and> metadata size_table ''datatype'' \<noteq> Some (Some ''datetime'')
   \<and> metadata size_table ''datatype'' \<noteq> Some (Some ''bool'')
   \<and> sqlite_integer 1 \<and> sqlite_integer 100 \<and> sqlite_integer 250 \<and> sqlite_integer 50
   \<and> (1::int) \<in> set [1]
   \<and> uncompressed_sizes [(1, 100), (1, 250), (1, 50)] 1 = [100, 250, 50]
   \<and> fst (SizeTable_read size_table (size_store [1] [(1, 100), (1, 250), (1, 50)])) = Returned
   \<and> OneToOneTable.book_col_map
         (snd (SizeTable_read size_table (size_store [1] [(1, 100), (1, 250), (1, 50)]))) 1
       = Some (PyInt 250)
   \<and> execute_values (value_store [(1, PyInt 250), (1, PyInt 100)]) size_query
       = Inr [(1, PyInt 250), (1, PyInt 100)]
   \<and> OneToOneTable.book_col_map
         (snd (SizeTable_read size_table (value_store [(1, PyInt 250), (1, PyInt 100)]))) 1
       = Some (PyInt 100)"
proof -
  have nm: "''size'' \<noteq> ''authors''" by simp
  have d1: "metadata size_table ''datatype'' \<noteq> Some (Some ''datetime'')"
    and d2: "metadata size_table ''datatype'' \<noteq> Some (Some ''bool'')"
    by (simp_all add: size_table_def)
  have r: "sqlite_integer 1" "sqlite_integer 100" "sqlite_integer 250" "sqlite_integer 50"
    by (simp_all add: sqlite_integer_def)
  then have bks: "\<forall>bk \<in> set [1]. sqlite_integer bk"
    and dat: "\<forall>row \<in> set [(1, 100), (1, 250), (1, 50)].
                sqlite_integer (fst row) \<and> sqlite_integer (snd row)"
    by simp_all
  have b: "(1::int) \<in> set [1]" by simp
  have sz: "uncompressed_sizes [(1, 100), (1, 250), (1, 50)] 1 = [100, 250, 50]"
    by (simp add: uncompressed_sizes_def)
  then have ne: "uncompressed_sizes [(1, 100), (1, 250), (1, 50)] 1 \<noteq> []" by simp
  have mx: "Max (set [100, 250, 50 :: int]) = 250" by simp
  have ex: "execute_values (value_store [(1, PyInt 250), (1, PyInt 100)]) size_query
              = Inr [(1, PyInt 250), (1, PyInt 100)]"
    by (simp add: value_store_def)
  note inst = SizeTable_read_maximum [OF size_table_init nm d1 d2 bks dat b ne,
      of "value_store [(1, PyInt 250), (1, PyInt 100)]" "[(1, PyInt 250), (1, PyInt 100)]"]
  from inst ex have
    "OneToOneTable.book_col_map
       (snd (SizeTable_read size_table (value_store [(1, PyInt 250), (1, PyInt 100)]))) 1
     = Some (PyInt 100)"
    by simp
  with inst size_table_init nm d1 d2 r b sz mx ex show ?thesis by simp
qed

section \<open>AuthorsTable\<close>

text \<open>
  Each row of the authors query stores its name column in \<open>id_map\<close> as it is, whether or not
  the rest of the row's body raises.
\<close>

lemma AuthorsTable_id_row_id_map:
  "id_map (snd (AuthorsTable_id_row env row self)) = (id_map self)(fst row \<mapsto> fst (snd row))"
  by (cases row) (simp add: AuthorsTable_id_row_def Let_def split: sum.splits)

lemma AuthorsTable_loop_returned:
  "for_rows (AuthorsTable_id_row env) rows self = (Returned, self') \<Longrightarrow>
     id_map self' = fold (\<lambda>row m. m(fst row \<mapsto> fst (snd row))) rows (id_map self)"
proof (induction rows arbitrary: self)
  case Nil
  then show ?case by simp
next
  case (Cons row rows)
  obtain oc self1 where step: "AuthorsTable_id_row env row self = (oc, self1)"
    by (cases "AuthorsTable_id_row env row self")
  with Cons.prems have oc: "oc = Returned"
    by (cases oc) simp_all
  with step Cons.prems have rest: "for_rows (AuthorsTable_id_row env) rows self1 = (Returned, self')"
    by simp
  from step AuthorsTable_id_row_id_map [of env row self]
  have "id_map self1 = (id_map self)(fst row \<mapsto> fst (snd row))" by simp
  with Cons.IH [OF rest] show ?case by simp
qed

lemma AuthorsTable_loop_raw:
  "for_rows (AuthorsTable_id_row env) rows self = (oc, self') \<Longrightarrow>
     id_map self' a = Some v \<Longrightarrow>
     id_map self a = Some v \<or> (\<exists>s l. (a, v, s, l) \<in> set rows)"
proof (induction rows arbitrary: self)
  case Nil
  then show ?case by simp
next
  case (Cons row rows)
  obtain oc1 self1 where step: "AuthorsTable_id_row env row self = (oc1, self1)"
    by (cases "AuthorsTable_id_row env row self")
  from step AuthorsTable_id_row_id_map [of env row self]
  have upd: "id_map self1 = (id_map self)(fst row \<mapsto> fst (snd row))" by simp
  obtain r0 r1 r2 r3 where row: "row = (r0, r1, r2, r3)" by (cases row)
  show ?case
  proof (cases oc1)
    case Returned
    with step Cons.prems(1) have "for_rows (AuthorsTable_id_row env) rows self1 = (oc, self')"
      by simp
    from Cons.IH [OF this Cons.prems(2)]
    have "id_map self1 a = Some v \<or> (\<exists>s l. (a, v, s, l) \<in> set rows)" .
    with upd row show ?thesis by (auto split: if_splits)
  next
    case (Raised e)
    with step Cons.prems(1) have "self' = self1" by simp
    with Cons.prems(2) upd row show ?thesis by (auto split: if_splits)
  qed
qed

text \<open>
  C9. \<open>AuthorsTable.read_id_maps\<close> stores the name column without calling \<open>self.adapt\<close>:
  when it returns, \<open>id_map\<close> is the starting \<open>id_map\<close> updated, row by row, with the raw
  name of each row; and however it ends, every entry of \<open>id_map\<close> that was not there before
  is the raw name of a row with that id. So a name that contains \<open>|\<close> is stored unchanged,
  even in the table named \<open>'authors'\<close>, whose adapter would replace it.
\<close>

theorem AuthorsTable_read_id_maps_raw_names:
  assumes "execute_authors db ''SELECT id, name, sort, link FROM authors'' = Inr rows"
    and "AuthorsTable_read_id_maps env self db = (oc, self')"
  shows "(oc = Returned \<longrightarrow>
            id_map self' = fold (\<lambda>row m. m(fst row \<mapsto> fst (snd row))) rows (id_map self))
         \<and> (\<forall>a v. id_map self' a = Some v \<longrightarrow>
               id_map self a = Some v \<or> (\<exists>s l. (a, v, s, l) \<in> set rows))"
proof -
  from assms have loop:
    "for_rows (AuthorsTable_id_row env) rows (self\<lparr>alink_map := Map.empty\<rparr>) = (oc, self')"
    by (simp add: AuthorsTable_read_id_maps_def for_query_def)
  have "oc = Returned \<longrightarrow>
          id_map self' = fold (\<lambda>row m. m(fst row \<mapsto> fst (snd row))) rows (id_map self)"
    using AuthorsTable_loop_returned [of env rows "self\<lparr>alink_map := Map.empty\<rparr>" self'] loop
    by simp
  moreover have "\<forall>a v. id_map self' a = Some v \<longrightarrow>
               id_map self a = Some v \<or> (\<exists>s l. (a, v, s, l) \<in> set rows)"
    using AuthorsTable_loop_raw [OF loop] by simp
  ultimately show ?thesis by blast
qed


theorem AuthorsTable_read_id_maps_raw_names_witness:
  "execute_authors (authors_store [(1, PyStr ''Smith|Jones'', PyNone, PyStr [])])
       ''SELECT id, name, sort, link FROM authors''
     = Inr [(1, PyStr ''Smith|Jones'', PyNone, PyStr [])]
   \<and> fst (AuthorsTable_read_id_maps sample_env (unloaded_AuthorsTable (authors_table ''text''))
            (authors_store [(1, PyStr ''Smith|Jones'', PyNone, PyStr [])])) = Returned
   \<and> id_map (snd (AuthorsTable_read_id_maps sample_env
                     (unloaded_AuthorsTable (authors_table ''text''))
                     (authors_store [(1, PyStr ''Smith|Jones'', PyNone, PyStr [])]))) 1
       = Some (PyStr ''Smith|Jones'')
   \<and> adapt (unloaded_AuthorsTable (authors_table ''text'')) (PyStr ''Smith|Jones'')
       = Inr (PyStr ''Smith,Jones'')"
proof -
  let ?rows = "[(1, PyStr ''Smith|Jones'', PyNone, PyStr [])]"
  let ?self = "unloaded_AuthorsTable (authors_table ''text'')"
  let ?R = "AuthorsTable_read_id_maps sample_env ?self (authors_store ?rows)"
  have ex: "execute_authors (authors_store ?rows) ''SELECT id, name, sort, link FROM authors''
              = Inr ?rows"
    by (simp add: authors_store_def)
  have ret: "fst ?R = Returned"
    by (simp add: AuthorsTable_read_id_maps_def for_query_def authors_store_def
        AuthorsTable_id_row_def sample_env_def Let_def)
  have ad: "adapt ?self (PyStr ''Smith|Jones'') = Inr (PyStr ''Smith,Jones'')"
    by (simp add: unloaded_AuthorsTable_def authors_table_def authors_adapt_def replace_def)
  have emp: "id_map ?self = Map.empty"
    by (simp add: unloaded_AuthorsTable_def)
  have "?R = (fst ?R, snd ?R)" by simp
  from AuthorsTable_read_id_maps_raw_names [OF ex this] ret emp
  have "id_map (snd ?R) 1 = Some (PyStr ''Smith|Jones'')" by simp
  with ex ret ad show ?thesis by blast
qed

end
